theory Spec2Isabelle
  imports Main "HOL-Library.Sublist" "HOL-Library.AList"
begin

section \<open>The evaluator interface\<close>

text \<open>
  A template is opaque; rendering it against the current state store either yields a
  string or raises \<open>TemplateError\<close>.  The exception carries its \<open>args\<close> tuple.  The
  state store changes between passes, so every operation takes the renderer of the
  moment as an argument.
\<close>

datatype TemplateError = TemplateError (args: "string list")

type_synonym 't renderer = "'t \<Rightarrow> TemplateError + string"

definition undefined_marker :: string where
  "undefined_marker = ''UndefinedError: 'None' has no attribute''"

text \<open>\<open>ex.args and ex.args[0].startswith("UndefinedError: 'None' has no attribute")\<close>\<close>

definition is_undefined_error :: "TemplateError \<Rightarrow> bool" where
  "is_undefined_error ex =
     (case args ex of [] \<Rightarrow> False | a # _ \<Rightarrow> prefix undefined_marker a)"

text \<open>
  \<open>str.lower()\<close>, on the ASCII letters.  The result is only ever compared with the
  ASCII literal \<open>"true"\<close>.
\<close>

definition lower_char :: "char \<Rightarrow> char" where
  "lower_char c =
     (let n = (of_char c :: nat) in if 65 \<le> n \<and> n \<le> 90 then char_of (n + 32) else c)"

definition lower :: "string \<Rightarrow> string" where
  "lower s = map lower_char s"

text \<open>\<open>str.replace(old, new)\<close>: every non-overlapping occurrence, from the left.\<close>

function replace :: "string \<Rightarrow> string \<Rightarrow> string \<Rightarrow> string" where
  "replace old new [] = (if old = [] then new else [])"
| "replace old new (c # cs) =
     (if old = [] then new @ c # replace old new cs
      else if prefix old (c # cs) then new @ replace old new (drop (length old) (c # cs))
      else c # replace old new cs)"
  by pat_completeness auto
termination
  by (relation "measure (\<lambda>(old, new, s). length s)") auto

section \<open>Logging\<close>

datatype level = WARNING | ERROR

datatype log_arg = Str string | Exc TemplateError

text \<open>A log call: severity, format string, arguments.\<close>

datatype log_record = Log level string "log_arg list"

section \<open>The sensor\<close>

text \<open>
  \<open>MATCH_ALL\<close> is the sentinel for "every entity"; otherwise a collection of entity
  ids, of which only membership matters.
\<close>

datatype entity_ids = MATCH_ALL | Entities "string set"

text \<open>
  The fields of \<open>BinarySensorTemplate\<close> (the leading underscore of the private fields is
  dropped; the read-only properties \<open>icon\<close>, \<open>entity_picture\<close>, \<open>is_on\<close>,
  \<open>device_state_attributes\<close> and \<open>available\<close> return these fields unchanged).
  A \<open>timedelta\<close> is a natural number of time units; a dict is an association list in
  insertion order.
\<close>

record 't sensor =
  name :: string
  template :: 't
  state :: "bool option"
  icon_template :: "'t option"
  availability_template :: "'t option"
  entity_picture_template :: "'t option"
  icon :: "string option"
  entity_picture :: "string option"
  entities :: entity_ids
  delay_on :: "nat option"
  delay_off :: "nat option"
  available :: bool
  attribute_templates :: "(string \<times> 't) list option"
  attributes :: "(string \<times> string) list"

text \<open>\<open>BinarySensorTemplate.__init__\<close>\<close>

definition init :: "string \<Rightarrow> 't \<Rightarrow> 't option \<Rightarrow> 't option \<Rightarrow> 't option \<Rightarrow> entity_ids \<Rightarrow>
    nat option \<Rightarrow> nat option \<Rightarrow> (string \<times> 't) list option \<Rightarrow> 't sensor" where
  "init friendly_name value_template icon_tpl entity_picture_tpl availability_tpl
        entity_ids d_on d_off attribute_tpls =
     \<lparr> name = friendly_name, template = value_template, state = None,
       icon_template = icon_tpl, availability_template = availability_tpl,
       entity_picture_template = entity_picture_tpl, icon = None, entity_picture = None,
       entities = entity_ids, delay_on = d_on, delay_off = d_off, available = True,
       attribute_templates = attribute_tpls, attributes = [] \<rparr>"

definition is_on :: "'t sensor \<Rightarrow> bool option" where
  "is_on s = state s"

section \<open>The recompute pass\<close>

text \<open>The loop over \<open>self._attribute_templates.items()\<close>, filling \<open>attrs\<close>.\<close>

fun render_attributes :: "'t renderer \<Rightarrow> (string \<times> 't) list \<Rightarrow> (string \<times> string) list \<Rightarrow>
    log_record list \<Rightarrow> (string \<times> string) list \<times> log_record list" where
  "render_attributes r [] attrs lg = (attrs, lg)"
| "render_attributes r ((key, value) # rest) attrs lg =
     (case r value of
        Inr v \<Rightarrow> render_attributes r rest (AList.update key v attrs) lg
      | Inl err \<Rightarrow>
          render_attributes r rest attrs
            (lg @ [Log ERROR ''Error rendering attribute %s: %s'' [Str key, Exc err]]))"

text \<open>The three properties assigned by name in the second loop, in dict order.\<close>

datatype property = P_icon | P_entity_picture | P_available

fun property_name :: "property \<Rightarrow> string" where
  "property_name P_icon = ''_icon''"
| "property_name P_entity_picture = ''_entity_picture''"
| "property_name P_available = ''_available''"

text \<open>\<open>property_name[1:].replace("_", " ")\<close>\<close>

definition friendly_property_name :: "property \<Rightarrow> string" where
  "friendly_property_name p = replace ''_'' '' '' (drop 1 (property_name p))"

definition templates :: "'t sensor \<Rightarrow> (property \<times> 't option) list" where
  "templates s =
     [(P_icon, icon_template s),
      (P_entity_picture, entity_picture_template s),
      (P_available, availability_template s)]"

text \<open>
  \<open>setattr(self, property_name, value)\<close>, after
  \<open>if property_name == "_available": value = value.lower() == "true"\<close>.
\<close>

fun set_property :: "property \<Rightarrow> string \<Rightarrow> 't sensor \<Rightarrow> 't sensor" where
  "set_property P_icon v s = s\<lparr>icon := Some v\<rparr>"
| "set_property P_entity_picture v s = s\<lparr>entity_picture := Some v\<rparr>"
| "set_property P_available v s = s\<lparr>available := (lower v = ''true'')\<rparr>"

definition property_failure :: "string \<Rightarrow> property \<Rightarrow> TemplateError \<Rightarrow> log_record" where
  "property_failure nm p ex =
     (if is_undefined_error ex
      then Log WARNING ''Could not render %s template %s, the state is unknown.''
             [Str (friendly_property_name p), Str nm]
      else Log ERROR ''Could not render %s template %s: %s''
             [Str (friendly_property_name p), Str nm, Exc ex])"

text \<open>
  The loop over \<open>templates.items()\<close>.  The \<open>except\<close> branch ends with \<open>return state\<close>:
  the loop stops there.
\<close>

fun render_properties :: "'t renderer \<Rightarrow> (property \<times> 't option) list \<Rightarrow> 't sensor \<Rightarrow>
    log_record list \<Rightarrow> 't sensor \<times> log_record list" where
  "render_properties r [] s lg = (s, lg)"
| "render_properties r ((p, None) # rest) s lg = render_properties r rest s lg"
| "render_properties r ((p, Some t) # rest) s lg =
     (case r t of
        Inr v \<Rightarrow> render_properties r rest (set_property p v s) lg
      | Inl ex \<Rightarrow> (s, lg @ [property_failure (name s) p ex]))"

text \<open>The part of \<open>_async_render\<close> after the \<open>try\<close> around the value template.\<close>

definition render_rest :: "'t renderer \<Rightarrow> 't sensor \<Rightarrow> log_record list \<Rightarrow>
    't sensor \<times> log_record list" where
  "render_rest r s lg =
     (let (s1, lg1) =
            (case attribute_templates s of
               None \<Rightarrow> (s, lg)
             | Some ats \<Rightarrow>
                 (let (attrs, lg') = render_attributes r ats [] lg
                  in (s\<lparr>attributes := attrs\<rparr>, lg')))
      in render_properties r (templates s1) s1 lg1)"

text \<open>
  \<open>BinarySensorTemplate._async_render\<close>: the returned \<open>state\<close> (\<open>None\<close>, \<open>True\<close> or
  \<open>False\<close>), the sensor after the pass and the log after the pass.
\<close>

definition async_render :: "'t renderer \<Rightarrow> 't sensor \<Rightarrow> log_record list \<Rightarrow>
    bool option \<times> 't sensor \<times> log_record list" where
  "async_render r s lg =
     (case r (template s) of
        Inr v \<Rightarrow> (Some (lower v = ''true''), render_rest r s lg)
      | Inl ex \<Rightarrow>
          if is_undefined_error ex
          then (None, s,
                lg @ [Log WARNING ''Could not render template %s, the state is unknown''
                        [Str (name s)]])
          else (None,
                render_rest r s
                  (lg @ [Log ERROR ''Could not render template %s: %s''
                           [Str (name s), Exc ex]])))"

section \<open>The host\<close>

text \<open>What the host receives by \<open>async_schedule_update_ha_state\<close>: the sensor's properties.\<close>

record snapshot =
  snap_value :: "bool option"
  snap_attributes :: "(string \<times> string) list"
  snap_icon :: "string option"
  snap_picture :: "string option"
  snap_available :: bool

text \<open>
  A timer started by \<open>async_track_same_state\<close>.  Its action is the closure \<open>set_state\<close>
  and its check is the closure \<open>lambda *args: self._async_render() == state\<close>; both capture
  the local \<open>state\<close> of the call that started the timer, kept here as \<open>target\<close>.
\<close>

record timer =
  deadline :: nat
  target :: bool
  tracked :: entity_ids

record host =
  logged :: "log_record list"
  published :: "snapshot list"
  timers :: "timer list"
  subscriptions :: "entity_ids list"
  start_listener :: bool
  now :: nat

definition snapshot_of :: "'t sensor \<Rightarrow> snapshot" where
  "snapshot_of s =
     \<lparr> snap_value = is_on s, snap_attributes = attributes s, snap_icon = icon s,
       snap_picture = entity_picture s, snap_available = available s \<rparr>"

text \<open>\<open>self.async_schedule_update_ha_state()\<close>: one publish request.\<close>

definition async_schedule_update_ha_state :: "'t sensor \<Rightarrow> host \<Rightarrow> host" where
  "async_schedule_update_ha_state s h = h\<lparr>published := published h @ [snapshot_of s]\<rparr>"

text \<open>
  Modelled from the spec: the property \<open>state\<close> that \<open>BinarySensorTemplate\<close> inherits
  from \<open>BinarySensorDevice\<close> (module \<open>homeassistant.components.binary_sensor\<close>, absent
  from the sources).  The spec reads \<open>state == self.state\<close> as "a value equal to the
  already-committed value", so the property is the committed value.
\<close>

definition state_property :: "'t sensor \<Rightarrow> bool option" where
  "state_property s = is_on s"

text \<open>
  Modelled from the spec: \<open>async_track_same_state\<close> (module
  \<open>homeassistant.helpers.event\<close>, absent from the sources).  "(Re)start a single timer for
  that duration; starting a new timer cancels and replaces any existing one, even if the
  existing one targeted the same or opposite value."  The timer keeps the entity ids it
  is handed: while it is pending, the facility follows their changes (\<open>track_change\<close>
  below).
\<close>

definition async_track_same_state :: "nat \<Rightarrow> bool \<Rightarrow> entity_ids \<Rightarrow> host \<Rightarrow> host" where
  "async_track_same_state period tgt ids h =
     h\<lparr>timers := [\<lparr>deadline = now h + period, target = tgt, tracked = ids\<rparr>]\<rparr>"

text \<open>
  Modelled from the spec: \<open>async_track_state_change\<close> (module
  \<open>homeassistant.helpers.event\<close>, absent from the sources), the state store's
  \<open>subscribe(keys, callback)\<close>.
\<close>

definition async_track_state_change :: "entity_ids \<Rightarrow> host \<Rightarrow> host" where
  "async_track_state_change ids h = h\<lparr>subscriptions := subscriptions h @ [ids]\<rparr>"

section \<open>The debounced commit\<close>

text \<open>The closure \<open>set_state\<close> of \<open>async_check_state\<close>, with its captured \<open>state\<close>.\<close>

definition set_state :: "bool \<Rightarrow> 't sensor \<times> host \<Rightarrow> 't sensor \<times> host" where
  "set_state st w =
     (let s' = (fst w)\<lparr>state := Some st\<rparr>
      in (s', async_schedule_update_ha_state s' (snd w)))"

text \<open>\<open>not self._delay_on\<close>: \<open>None\<close> and the zero \<open>timedelta\<close> are both falsy.\<close>

definition falsy :: "nat option \<Rightarrow> bool" where
  "falsy d = (case d of None \<Rightarrow> True | Some n \<Rightarrow> n = 0)"

text \<open>
  \<open>BinarySensorTemplate.async_check_state\<close>.  In the last branch the period is a
  nonzero \<open>timedelta\<close>: a period of \<open>None\<close> is falsy and has taken the branch before.
\<close>

definition async_check_state :: "'t renderer \<Rightarrow> 't sensor \<times> host \<Rightarrow> 't sensor \<times> host" where
  "async_check_state r w =
     (let (st, s, lg) = async_render r (fst w) (logged (snd w));
          h = (snd w)\<lparr>logged := lg\<rparr>
      in case st of
           None \<Rightarrow> (s, h)
         | Some b \<Rightarrow>
             if Some b = state_property s then (s, h)
             else if (b \<and> falsy (delay_on s)) \<or> (\<not> b \<and> falsy (delay_off s))
             then set_state b (s, h)
             else (case (if b then delay_on s else delay_off s) of
                     None \<Rightarrow> (s, h)
                   | Some period \<Rightarrow> (s, async_track_same_state period b (entities s) h)))"

text \<open>\<open>BinarySensorTemplate.async_update\<close>\<close>

definition async_update :: "'t renderer \<Rightarrow> 't sensor \<times> host \<Rightarrow> 't sensor \<times> host" where
  "async_update r w = async_check_state r w"

text \<open>
  The check closure \<open>lambda *args: self._async_render() == state\<close>: a full recompute pass,
  whose result is compared with the captured value.
\<close>

definition async_check_same_func :: "'t renderer \<Rightarrow> bool \<Rightarrow> 't sensor \<times> host \<Rightarrow>
    bool \<times> 't sensor \<times> host" where
  "async_check_same_func r tgt w =
     (let (st, s, lg) = async_render r (fst w) (logged (snd w))
      in (st = Some tgt, s, (snd w)\<lparr>logged := lg\<rparr>))"

text \<open>
  Modelled from the spec: the firing of the pending timer by the host (part of
  \<open>async_track_same_state\<close>, absent from the sources).  "Timer deadline reached AND a
  guard re-evaluation confirms the value expression still yields target at fire time.
  If the guard fails, abandon the transition: no commit, no state change, timer is
  discarded."  Before the deadline nothing happens.
\<close>

definition timer_fire :: "'t renderer \<Rightarrow> 't sensor \<times> host \<Rightarrow> 't sensor \<times> host" where
  "timer_fire r w =
     (case timers (snd w) of
        [] \<Rightarrow> w
      | tm # rest \<Rightarrow>
          if now (snd w) < deadline tm then w
          else (let (ok, s, h) = async_check_same_func r (target tm) (fst w, (snd w)\<lparr>timers := rest\<rparr>)
                in if ok then set_state (target tm) (s, h) else (s, h)))"

text \<open>The passing of time on the host's clock.\<close>

definition advance :: "nat \<Rightarrow> 't sensor \<times> host \<Rightarrow> 't sensor \<times> host" where
  "advance d w = (fst w, (snd w)\<lparr>now := now (snd w) + d\<rparr>)"

section \<open>Lifecycle\<close>

text \<open>The callback \<open>template_bsensor_state_listener\<close>; its three arguments are unused.\<close>

definition template_bsensor_state_listener :: "string \<Rightarrow> 'v \<Rightarrow> 'v \<Rightarrow> 't renderer \<Rightarrow>
    't sensor \<times> host \<Rightarrow> 't sensor \<times> host" where
  "template_bsensor_state_listener entity old_state new_state r w = async_check_state r w"

text \<open>The callback \<open>template_bsensor_startup\<close>.\<close>

definition template_bsensor_startup :: "'t renderer \<Rightarrow> 't sensor \<times> host \<Rightarrow> 't sensor \<times> host" where
  "template_bsensor_startup r w =
     (let h = (if entities (fst w) \<noteq> MATCH_ALL
               then async_track_state_change (entities (fst w)) (snd w)
               else snd w)
      in async_check_state r (fst w, h))"

text \<open>\<open>BinarySensorTemplate.async_added_to_hass\<close>: \<open>async_listen_once\<close> on the start event.\<close>

definition async_added_to_hass :: "'t sensor \<times> host \<Rightarrow> 't sensor \<times> host" where
  "async_added_to_hass w = (fst w, (snd w)\<lparr>start_listener := True\<rparr>)"

text \<open>
  Modelled from the spec: the host's one-shot "system started" signal
  (\<open>EVENT_HOMEASSISTANT_START\<close> on the bus, absent from the sources), "consumed exactly
  once": the listener is removed and run.
\<close>

definition homeassistant_start :: "'t renderer \<Rightarrow> 't sensor \<times> host \<Rightarrow> 't sensor \<times> host" where
  "homeassistant_start r w =
     (if start_listener (snd w)
      then template_bsensor_startup r (fst w, (snd w)\<lparr>start_listener := False\<rparr>)
      else w)"

text \<open>
  Modelled from the spec: the state store notifying a change of \<open>key\<close> (absent from the
  sources): the callback of every subscription whose key set holds \<open>key\<close> is invoked.
\<close>

definition subscribed :: "string \<Rightarrow> entity_ids \<Rightarrow> bool" where
  "subscribed key ids = (case ids of MATCH_ALL \<Rightarrow> True | Entities K \<Rightarrow> key \<in> K)"

fun notify :: "string \<Rightarrow> 't renderer \<Rightarrow> entity_ids list \<Rightarrow> 't sensor \<times> host \<Rightarrow> 't sensor \<times> host" where
  "notify key r [] w = w"
| "notify key r (ids # rest) w =
     notify key r rest
       (if subscribed key ids then template_bsensor_state_listener key () () r w else w)"

definition state_changed :: "string \<Rightarrow> 't renderer \<Rightarrow> 't sensor \<times> host \<Rightarrow> 't sensor \<times> host" where
  "state_changed key r w = notify key r (subscriptions (snd w)) w"



section \<open>Construction\<close>

text \<open>
  Modelled from the spec: the configuration keys \<open>CONF_VALUE_TEMPLATE\<close>,
  \<open>CONF_ICON_TEMPLATE\<close>, \<open>CONF_ENTITY_PICTURE_TEMPLATE\<close> (module \<open>homeassistant.const\<close>)
  and \<open>CONF_AVAILABILITY_TEMPLATE\<close> (module \<open>.const\<close>), absent from the sources.  The
  spec's logical names value, icon, entity-picture and availability are what the source's
  \<open>replace("_template", "")\<close> leaves of them.
\<close>

definition CONF_VALUE_TEMPLATE :: string where
  "CONF_VALUE_TEMPLATE = ''value_template''"

definition CONF_ICON_TEMPLATE :: string where
  "CONF_ICON_TEMPLATE = ''icon_template''"

definition CONF_ENTITY_PICTURE_TEMPLATE :: string where
  "CONF_ENTITY_PICTURE_TEMPLATE = ''entity_picture_template''"

definition CONF_AVAILABILITY_TEMPLATE :: string where
  "CONF_AVAILABILITY_TEMPLATE = ''availability_template''"

text \<open>
  One entry of \<open>config[CONF_SENSORS]\<close>, after schema validation.  An optional key is an
  \<open>option\<close>; \<open>ATTR_ENTITY_ID\<close> is a list of entity ids.
\<close>

record 't device_config =
  cfg_value_template :: 't
  cfg_icon_template :: "'t option"
  cfg_entity_picture_template :: "'t option"
  cfg_availability_template :: "'t option"
  cfg_attribute_templates :: "(string \<times> 't) list option"
  cfg_friendly_name :: "string option"
  cfg_entity_id :: "string list option"
  cfg_delay_on :: "nat option"
  cfg_delay_off :: "nat option"

text \<open>\<open>", ".join(xs)\<close>\<close>

fun join :: "string \<Rightarrow> string list \<Rightarrow> string" where
  "join sep [] = []"
| "join sep [x] = x"
| "join sep (x # y # ys) = x @ sep @ join sep (y # ys)"

text \<open>
  The loop over \<open>chain(templates.items(), attribute_templates.items())\<close>.  The evaluator's
  \<open>extract_entities\<close> is a parameter.  The accumulator is the pair of \<open>entity_ids\<close> and
  \<open>invalid_templates\<close>.
\<close>

fun extract_loop :: "('t \<Rightarrow> entity_ids) \<Rightarrow> string list option \<Rightarrow> (string \<times> 't option) list \<Rightarrow>
    entity_ids \<times> string list \<Rightarrow> entity_ids \<times> string list" where
  "extract_loop extract_entities manual [] acc = acc"
| "extract_loop extract_entities manual ((tpl_name, None) # rest) acc =
     extract_loop extract_entities manual rest acc"
| "extract_loop extract_entities manual ((tpl_name, Some tpl) # rest) (entity_ids, invalid_templates) =
     (if manual \<noteq> None
      then extract_loop extract_entities manual rest (entity_ids, invalid_templates)
      else (case extract_entities tpl of
              MATCH_ALL \<Rightarrow>
                extract_loop extract_entities manual rest
                  (MATCH_ALL, invalid_templates @ [replace ''_template'' [] tpl_name])
            | Entities K \<Rightarrow>
                (case entity_ids of
                   MATCH_ALL \<Rightarrow>
                     extract_loop extract_entities manual rest (entity_ids, invalid_templates)
                 | Entities J \<Rightarrow>
                     extract_loop extract_entities manual rest
                       (Entities (J \<union> K), invalid_templates))))"

definition all_templates :: "'t device_config \<Rightarrow> (string \<times> 't option) list" where
  "all_templates c =
     [(CONF_VALUE_TEMPLATE, Some (cfg_value_template c)),
      (CONF_ICON_TEMPLATE, cfg_icon_template c),
      (CONF_ENTITY_PICTURE_TEMPLATE, cfg_entity_picture_template c),
      (CONF_AVAILABILITY_TEMPLATE, cfg_availability_template c)]
     @ map (\<lambda>(k, t). (k, Some t)) (case cfg_attribute_templates c of None \<Rightarrow> [] | Some ats \<Rightarrow> ats)"

definition setup_warning :: "string \<Rightarrow> string list \<Rightarrow> log_record" where
  "setup_warning device invalid_templates =
     Log WARNING
       (''Template binary sensor %s has no entity ids configured to''
        @ '' track nor were we able to extract the entities to track''
        @ '' from the %s template(s). This entity will only be able''
        @ '' to be updated manually.'')
       [Str device, Str (join '', '' invalid_templates)]"

text \<open>
  The body of the loop of \<open>async_setup_platform\<close> for one device: the resolved
  \<open>entity_ids\<close> and \<open>invalid_templates\<close>.
\<close>

definition resolve :: "('t \<Rightarrow> entity_ids) \<Rightarrow> 't device_config \<Rightarrow> entity_ids \<times> string list" where
  "resolve extract_entities c =
     (let (entity_ids, invalid_templates) =
            extract_loop extract_entities (cfg_entity_id c) (all_templates c) (Entities {}, [])
      in ((case cfg_entity_id c of Some manual \<Rightarrow> Entities (set manual) | None \<Rightarrow> entity_ids),
          invalid_templates))"

text \<open>One device of \<open>async_setup_platform\<close>: the sensor constructed and the log after it.\<close>

definition setup_device :: "('t \<Rightarrow> entity_ids) \<Rightarrow> string \<Rightarrow> 't device_config \<Rightarrow> log_record list \<Rightarrow>
    't sensor \<times> log_record list" where
  "setup_device extract_entities device c lg =
     (let (entity_ids, invalid_templates) = resolve extract_entities c
      in (init (case cfg_friendly_name c of None \<Rightarrow> device | Some n \<Rightarrow> n)
            (cfg_value_template c) (cfg_icon_template c) (cfg_entity_picture_template c)
            (cfg_availability_template c) entity_ids (cfg_delay_on c) (cfg_delay_off c)
            (Some (case cfg_attribute_templates c of None \<Rightarrow> [] | Some ats \<Rightarrow> ats)),
          if invalid_templates \<noteq> [] then lg @ [setup_warning device invalid_templates] else lg))"

text \<open>\<open>async_setup_platform\<close>: the sensors handed to the host, the log and the result.\<close>

fun setup_devices :: "('t \<Rightarrow> entity_ids) \<Rightarrow> (string \<times> 't device_config) list \<Rightarrow> log_record list \<Rightarrow>
    't sensor list \<times> log_record list" where
  "setup_devices extract_entities [] lg = ([], lg)"
| "setup_devices extract_entities ((device, c) # rest) lg =
     (let (s, lg1) = setup_device extract_entities device c lg;
          (ss, lg2) = setup_devices extract_entities rest lg1
      in (s # ss, lg2))"

definition async_setup_platform :: "('t \<Rightarrow> entity_ids) \<Rightarrow> (string \<times> 't device_config) list \<Rightarrow>
    log_record list \<Rightarrow> 't sensor list \<times> log_record list \<times> bool" where
  "async_setup_platform extract_entities config lg =
     (let (sensors, lg1) = setup_devices extract_entities config lg
      in if sensors = [] then ([], lg1 @ [Log ERROR ''No sensors added'' []], False)
         else (sensors, lg1, True))"

section \<open>Notions used in the statements\<close>

text \<open>Step 1 of the pass on its own: the candidate that the value template yields.\<close>

definition value_candidate :: "'t renderer \<Rightarrow> 't sensor \<Rightarrow> bool option" where
  "value_candidate r s =
     (case r (template s) of Inr v \<Rightarrow> Some (lower v = ''true'') | Inl ex \<Rightarrow> None)"

text \<open>The value template fails with an undefined-reference error.\<close>

definition soft_failure :: "'t renderer \<Rightarrow> 't sensor \<Rightarrow> bool" where
  "soft_failure r s = (case r (template s) of Inr v \<Rightarrow> False | Inl ex \<Rightarrow> is_undefined_error ex)"

text \<open>An optional template is configured and its evaluation fails.\<close>

definition fails :: "'t renderer \<Rightarrow> 't option \<Rightarrow> bool" where
  "fails r tpl = (case tpl of None \<Rightarrow> False | Some t \<Rightarrow> isl (r t))"

text \<open>
  The new value of a field with last-known value \<open>old\<close>: the rendered string when the
  template is configured and evaluates, the last-known value otherwise.
\<close>

definition rendered_or :: "'t renderer \<Rightarrow> 't option \<Rightarrow> string option \<Rightarrow> string option" where
  "rendered_or r tpl old =
     (case tpl of
        None \<Rightarrow> old
      | Some t \<Rightarrow> (case r t of Inr v \<Rightarrow> Some v | Inl ex \<Rightarrow> old))"

text \<open>The attributes that evaluate, in the order of the configuration.\<close>

definition succeeded :: "'t renderer \<Rightarrow> (string \<times> 't) list \<Rightarrow> (string \<times> string) list" where
  "succeeded r ats =
     List.map_filter (\<lambda>(k, t). case r t of Inr v \<Rightarrow> Some (k, v) | Inl ex \<Rightarrow> None) ats"

text \<open>The same for the availability flag, read by comparison with \<open>"true"\<close>.\<close>

definition flag_or :: "'t renderer \<Rightarrow> 't option \<Rightarrow> bool \<Rightarrow> bool" where
  "flag_or r tpl old =
     (case tpl of
        None \<Rightarrow> old
      | Some t \<Rightarrow> (case r t of Inr v \<Rightarrow> lower v = ''true'' | Inl ex \<Rightarrow> old))"

text \<open>The log records of the attributes that fail, in the order of the configuration.\<close>

definition attribute_failures :: "'t renderer \<Rightarrow> (string \<times> 't) list \<Rightarrow> log_record list" where
  "attribute_failures r ats =
     List.map_filter
       (\<lambda>(k, t). case r t of
                   Inr v \<Rightarrow> None
                 | Inl err \<Rightarrow> Some (Log ERROR ''Error rendering attribute %s: %s'' [Str k, Exc err]))
       ats"

text \<open>The delay that gates the commit of a candidate.\<close>

definition delay_for :: "bool \<Rightarrow> 't sensor \<Rightarrow> nat option" where
  "delay_for b s = (if b then delay_on s else delay_off s)"




text \<open>The named templates that are configured, and those whose references are unbounded.\<close>

definition configured :: "(string \<times> 't option) list \<Rightarrow> (string \<times> 't) list" where
  "configured ts = List.map_filter (\<lambda>(n, tpl). map_option (Pair n) tpl) ts"

definition unbounded :: "('t \<Rightarrow> entity_ids) \<Rightarrow> (string \<times> 't option) list \<Rightarrow> (string \<times> 't) list" where
  "unbounded extract_entities ts =
     filter (\<lambda>(n, t). extract_entities t = MATCH_ALL) (configured ts)"

definition referenced :: "('t \<Rightarrow> entity_ids) \<Rightarrow> (string \<times> 't option) list \<Rightarrow> string set" where
  "referenced extract_entities ts =
     (\<Union>(n, t) \<in> set (configured ts).
        case extract_entities t of MATCH_ALL \<Rightarrow> {} | Entities K \<Rightarrow> K)"

text \<open>The sensor is added to the host, and the host then signals its start.\<close>

definition started :: "'t renderer \<Rightarrow> 't sensor \<times> host \<Rightarrow> 't sensor \<times> host" where
  "started r w = homeassistant_start r (async_added_to_hass w)"

text \<open>The logical name of a template: \<open>tpl_name.replace("_template", "")\<close>.\<close>

definition logical_name :: "string \<times> 't \<Rightarrow> string" where
  "logical_name nt = replace ''_template'' [] (fst nt)"

section \<open>Example data\<close>

text \<open>
  Templates are numbered.  In \<open>store_a\<close> template 0 fails with an undefined reference,
  1 renders an icon name, 2 fails otherwise, 3 renders \<open>True\<close>, 4 renders \<open>false\<close>;
  \<open>store_b\<close> differs in that template 0 renders \<open>TRUE\<close>, \<open>store_c\<close> in that it
  renders \<open>off\<close>, and \<open>store_d\<close> in that it fails otherwise.
\<close>

definition soft_error :: TemplateError where
  "soft_error = TemplateError [undefined_marker @ '' state'']"

definition hard_error :: TemplateError where
  "hard_error = TemplateError [''TypeError: unsupported operand'']"

definition store_a :: "nat renderer" where
  "store_a t =
     (if t = 0 then Inl soft_error
      else if t = 1 then Inr ''mdi:home''
      else if t = 2 then Inl hard_error
      else if t = 3 then Inr ''True''
      else Inr ''false'')"

definition store_b :: "nat renderer" where
  "store_b t = (if t = 0 then Inr ''TRUE'' else store_a t)"

definition store_c :: "nat renderer" where
  "store_c t = (if t = 0 then Inr ''off'' else store_a t)"

definition store_d :: "nat renderer" where
  "store_d t = (if t = 0 then Inl hard_error else store_a t)"

definition sensor0 :: "nat sensor" where
  "sensor0 =
     init ''door'' 0 (Some 1) (Some 2) (Some 3) (Entities {''sensor.door''})
       (Some 3) None (Some [(''kind'', 1), (''broken'', 2), (''open'', 3)])"

text \<open>A sensor past its first passes: a stale attribute, and not available.\<close>

definition sensor1 :: "nat sensor" where
  "sensor1 = sensor0\<lparr>available := False, attributes := [(''stale'', ''x'')]\<rparr>"

definition host0 :: host where
  "host0 = \<lparr> logged = [], published = [], timers = [], subscriptions = [],
             start_listener = False, now = 0 \<rparr>"

text \<open>
  The sensor and its host before the first pass; the same after a pass that renders
  \<open>TRUE\<close>, which leaves a timer pending; a sensor with both delays.
\<close>

definition world0 :: "nat sensor \<times> host" where
  "world0 = (sensor0, host0)"

definition pending0 :: "nat sensor \<times> host" where
  "pending0 = async_check_state store_b world0"

definition timer0 :: timer where
  "timer0 = \<lparr>deadline = 3, target = True, tracked = Entities {''sensor.door''}\<rparr>"




definition extract0 :: "nat \<Rightarrow> entity_ids" where
  "extract0 t = (if t = 0 then MATCH_ALL else Entities {''sensor.door''})"

definition config0 :: "nat device_config" where
  "config0 =
     \<lparr> cfg_value_template = 0, cfg_icon_template = Some 1,
       cfg_entity_picture_template = None, cfg_availability_template = None,
       cfg_attribute_templates = Some [(''kind'', 1)], cfg_friendly_name = None,
       cfg_entity_id = None, cfg_delay_on = Some 3, cfg_delay_off = None \<rparr>"

definition extract1 :: "nat \<Rightarrow> entity_ids" where
  "extract1 t = (if t = 0 then Entities {''sensor.door''} else Entities {''sun.sun''})"

definition config1 :: "nat device_config" where
  "config1 = config0\<lparr>cfg_entity_id := Some [''sensor.a'', ''sensor.b'']\<rparr>"

text \<open>A sensor whose dependencies are unbounded.\<close>

definition sensor3 :: "nat sensor" where
  "sensor3 = sensor0\<lparr>entities := MATCH_ALL\<rparr>"

text \<open>
  A configuration whose value template references one entity and whose attribute
  \<open>my_template_attr\<close> references all state.
\<close>

definition extract2 :: "nat \<Rightarrow> entity_ids" where
  "extract2 t = (if t = 5 then MATCH_ALL else Entities {''sensor.door''})"

definition config2 :: "nat device_config" where
  "config2 =
     \<lparr> cfg_value_template = 0, cfg_icon_template = None,
       cfg_entity_picture_template = None, cfg_availability_template = None,
       cfg_attribute_templates = Some [(''my_template_attr'', 5)], cfg_friendly_name = None,
       cfg_entity_id = None, cfg_delay_on = None, cfg_delay_off = None \<rparr>"

section \<open>Facts about the recompute pass\<close>

lemma async_render_fst: "fst (async_render r s lg) = value_candidate r s"
  by (simp add: async_render_def value_candidate_def split: sum.splits)

lemma soft_failure_store_a: "soft_failure store_a sensor0"
  by (simp add: soft_failure_def store_a_def sensor0_def init_def soft_error_def
      is_undefined_error_def undefined_marker_def)

text \<open>
  C1, as the code has it: in a recompute pass whose value template fails with an
  undefined-reference error, a warning is logged, the candidate is Unknown, and the pass
  ends there: attributes, icon, picture and availability are not evaluated, and the
  sensor is left as it was.
\<close>

theorem soft_failure_ends_pass:
  "soft_failure r s \<Longrightarrow>
   async_render r s lg =
     (None, s, lg @ [Log WARNING ''Could not render template %s, the state is unknown''
                       [Str (name s)]])"
  by (simp add: soft_failure_def async_render_def split: sum.splits)

theorem soft_failure_ends_pass_witness:
  "soft_failure store_a sensor0 \<and>
   async_render store_a sensor0 [] =
     (None, sensor0, [Log WARNING ''Could not render template %s, the state is unknown''
                        [Str ''door'']])"
proof -
  have n: "name sensor0 = ''door''"
    by (simp add: sensor0_def init_def)
  show ?thesis
    using soft_failure_ends_pass [OF soft_failure_store_a, of "[]"] soft_failure_store_a
    by (simp add: n)
qed

text \<open>
  C1 as stated fails: with the value template failing on an undefined reference, the
  attribute template \<open>kind\<close> and the icon template, which both evaluate, are not
  evaluated (the attribute map and the icon keep their values), and the failure of the
  attribute template \<open>broken\<close> is not logged.
\<close>

theorem soft_failure_skips_rest_counterexample:
  "soft_failure store_a sensor0 \<and>
   attribute_templates sensor0 = Some [(''kind'', 1), (''broken'', 2), (''open'', 3)] \<and>
   store_a 1 = Inr ''mdi:home'' \<and>
   icon_template sensor0 = Some 1 \<and>
   attributes (fst (snd (async_render store_a sensor0 []))) = [] \<and>
   icon (fst (snd (async_render store_a sensor0 []))) = None \<and>
   snd (snd (async_render store_a sensor0 [])) =
     [Log WARNING ''Could not render template %s, the state is unknown'' [Str ''door'']]"
proof (intro conjI)
  show "soft_failure store_a sensor0"
    by (rule soft_failure_store_a)
qed (simp_all add: async_render_def store_a_def sensor0_def init_def soft_error_def
      is_undefined_error_def undefined_marker_def)

lemma lower_examples:
  "lower ''TRUE'' = ''true''" "lower ''True'' = ''true''" "lower ''false'' = ''false''"
  "lower ''off'' = ''off''"
  by code_simp+

lemma render_properties_chain:
  "fst (render_properties r [(P_icon, ti), (P_entity_picture, tp), (P_available, ta)] s lg) =
     s\<lparr>icon := rendered_or r ti (icon s),
       entity_picture := (if fails r ti then entity_picture s else rendered_or r tp (entity_picture s)),
       available := (if fails r ti \<or> fails r tp then available s else flag_or r ta (available s))\<rparr>"
  by (cases ti; cases tp; cases ta)
     (auto simp: rendered_or_def fails_def flag_or_def split: sum.splits)

lemma render_properties_log:
  "\<exists>extra. snd (render_properties r ts s lg) = lg @ extra \<and> length extra \<le> 1"
proof (induction r ts s lg rule: render_properties.induct)
  case (3 r p t rest s lg)
  then show ?case by (cases "r t") auto
qed auto

lemma update_fresh: "k \<notin> fst ` set al \<Longrightarrow> AList.update k v al = al @ [(k, v)]"
  by (induction al) auto

lemma render_attributes_fresh:
  "distinct (map fst ats) \<Longrightarrow> fst ` set attrs \<inter> fst ` set ats = {} \<Longrightarrow>
   render_attributes r ats attrs lg = (attrs @ succeeded r ats, lg @ attribute_failures r ats)"
proof (induction ats arbitrary: attrs lg)
  case Nil
  then show ?case by (simp add: succeeded_def attribute_failures_def)
next
  case (Cons a ats)
  obtain k t where a: "a = (k, t)" by (cases a)
  have fresh: "k \<notin> fst ` set attrs" using Cons.prems(2) a by auto
  show ?case
  proof (cases "r t")
    case (Inl err)
    have "fst ` set attrs \<inter> fst ` set ats = {}" using Cons.prems(2) by auto
    with Cons.IH [of attrs] Cons.prems(1) Inl a show ?thesis
      by (simp add: succeeded_def attribute_failures_def)
  next
    case (Inr v)
    have "fst ` set (attrs @ [(k, v)]) \<inter> fst ` set ats = {}"
      using Cons.prems a by auto
    with Cons.IH [of "attrs @ [(k, v)]"] Cons.prems(1) Inr a fresh show ?thesis
      by (simp add: succeeded_def attribute_failures_def update_fresh)
  qed
qed

lemma render_properties_attributes:
  "attributes (fst (render_properties r ts s lg)) = attributes s"
proof (induction r ts s lg rule: render_properties.induct)
  case (3 r p t rest s lg)
  then show ?case by (cases "r t"; cases p) auto
qed auto


lemma render_rest_properties:
  "icon (fst (render_rest r s lg)) = rendered_or r (icon_template s) (icon s) \<and>
   entity_picture (fst (render_rest r s lg)) =
     (if fails r (icon_template s) then entity_picture s
      else rendered_or r (entity_picture_template s) (entity_picture s)) \<and>
   available (fst (render_rest r s lg)) =
     (if fails r (icon_template s) \<or> fails r (entity_picture_template s) then available s
      else flag_or r (availability_template s) (available s))"
proof (cases "attribute_templates s")
  case None
  then show ?thesis
    by (simp add: render_rest_def templates_def render_properties_chain)
next
  case (Some ats)
  obtain attrs lg' where "render_attributes r ats [] lg = (attrs, lg')"
    by (cases "render_attributes r ats [] lg")
  with Some show ?thesis
    by (simp add: render_rest_def templates_def render_properties_chain)
qed

lemma async_render_rest:
  "\<not> soft_failure r s \<Longrightarrow> \<exists>lg1. snd (async_render r s lg) = render_rest r s lg1"
  by (auto simp: async_render_def soft_failure_def split: sum.splits)

text \<open>
  C2, as the code has it: in every recompute pass whose value template does not fail
  with an undefined-reference error, icon, picture and availability are evaluated in
  that order; the first of them whose evaluation fails stops the sequence, every field
  from the failing one on keeps its last-known value, and the pass returns the
  candidate of the value template.
\<close>

theorem property_chain_stops_at_first_failure:
  "\<not> soft_failure r s \<Longrightarrow>
   fst (async_render r s lg) = value_candidate r s \<and>
   icon (fst (snd (async_render r s lg))) = rendered_or r (icon_template s) (icon s) \<and>
   entity_picture (fst (snd (async_render r s lg))) =
     (if fails r (icon_template s) then entity_picture s
      else rendered_or r (entity_picture_template s) (entity_picture s)) \<and>
   available (fst (snd (async_render r s lg))) =
     (if fails r (icon_template s) \<or> fails r (entity_picture_template s) then available s
      else flag_or r (availability_template s) (available s))"
proof -
  assume "\<not> soft_failure r s"
  then obtain lg1 where "snd (async_render r s lg) = render_rest r s lg1"
    using async_render_rest by blast
  then show ?thesis
    using render_rest_properties [of r s lg1] by (simp add: async_render_fst)
qed

lemma sensor1_fields:
  "template sensor1 = 0" "icon_template sensor1 = Some 1"
  "entity_picture_template sensor1 = Some 2" "availability_template sensor1 = Some 3"
  "icon sensor1 = None" "entity_picture sensor1 = None" "available sensor1 = False"
  "attribute_templates sensor1 = Some [(''kind'', 1), (''broken'', 2), (''open'', 3)]"
  "attributes sensor1 = [(''stale'', ''x'')]" "name sensor1 = ''door''"
  "state sensor1 = None" "delay_on sensor1 = Some 3" "delay_off sensor1 = None"
  "entities sensor1 = Entities {''sensor.door''}"
  by (simp_all add: sensor1_def sensor0_def init_def)

text \<open>
  The value renders \<open>TRUE\<close>, the icon renders, the picture fails: the icon is assigned,
  the picture keeps its value, and availability, whose template would render \<open>True\<close>,
  stays \<open>False\<close>.
\<close>

theorem property_chain_stops_at_first_failure_witness:
  "\<not> soft_failure store_b sensor1 \<and>
   fst (async_render store_b sensor1 []) = Some True \<and>
   icon (fst (snd (async_render store_b sensor1 []))) = Some ''mdi:home'' \<and>
   entity_picture (fst (snd (async_render store_b sensor1 []))) = None \<and>
   available (fst (snd (async_render store_b sensor1 []))) = False"
proof -
  have h: "\<not> soft_failure store_b sensor1"
    by (simp add: soft_failure_def store_b_def sensor1_fields)
  show ?thesis
    using property_chain_stops_at_first_failure [OF h, of "[]"] h
    by (simp add: sensor1_fields value_candidate_def rendered_or_def fails_def flag_or_def
        store_b_def store_a_def lower_examples)
qed

text \<open>
  C2 as stated fails in a pass whose value template fails with an undefined reference:
  the icon and the availability template both evaluate, yet neither field is assigned.
\<close>

theorem properties_not_evaluated_counterexample:
  "icon_template sensor1 = Some 1 \<and> store_a 1 = Inr ''mdi:home'' \<and>
   availability_template sensor1 = Some 3 \<and> store_a 3 = Inr ''True'' \<and>
   icon (fst (snd (async_render store_a sensor1 []))) = None \<and>
   available (fst (snd (async_render store_a sensor1 []))) = False"
  by (simp add: sensor1_fields async_render_def store_a_def soft_error_def
      is_undefined_error_def undefined_marker_def)

text \<open>
  C7: in a recompute pass that reaches attribute evaluation (the value template does not
  fail with an undefined-reference error; the attribute templates are a dict, whose keys
  are distinct), the attribute map is replaced by exactly the attributes that evaluate,
  whatever the map held before and whether or not the value template failed; every
  attribute that fails is logged, in order, and left out.
\<close>

theorem attributes_replaced_by_successes:
  "\<not> soft_failure r s \<Longrightarrow> attribute_templates s = Some ats \<Longrightarrow> distinct (map fst ats) \<Longrightarrow>
   attributes (fst (snd (async_render r s lg))) = succeeded r ats \<and>
   (\<exists>pre post. snd (snd (async_render r s lg)) = pre @ attribute_failures r ats @ post)"
proof -
  assume soft: "\<not> soft_failure r s" and ats: "attribute_templates s = Some ats"
    and d: "distinct (map fst ats)"
  have ra: "render_attributes r ats [] lg1 = (succeeded r ats, lg1 @ attribute_failures r ats)" for lg1
    using render_attributes_fresh [OF d, of "[]" r lg1] by simp
  have rest: "render_rest r s lg1 =
      render_properties r (templates s) (s\<lparr>attributes := succeeded r ats\<rparr>)
        (lg1 @ attribute_failures r ats)" for lg1
    by (simp add: render_rest_def ats ra templates_def)
  obtain lg1 where a: "snd (async_render r s lg) = render_rest r s lg1"
    using async_render_rest [OF soft] by blast
  obtain extra where e: "snd (render_rest r s lg1) = (lg1 @ attribute_failures r ats) @ extra"
    using render_properties_log [of r "templates s" "s\<lparr>attributes := succeeded r ats\<rparr>"
        "lg1 @ attribute_failures r ats"] rest by auto
  have "attributes (fst (snd (async_render r s lg))) = succeeded r ats"
    by (simp add: a rest render_properties_attributes)
  moreover have "snd (snd (async_render r s lg)) = lg1 @ attribute_failures r ats @ extra"
    using a e by simp
  ultimately show ?thesis by blast
qed

text \<open>
  The value template fails (not on an undefined reference), the attribute \<open>broken\<close>
  fails: the two other attributes populate and the stale attribute is gone.
\<close>

theorem attributes_replaced_by_successes_witness:
  "\<not> soft_failure store_d sensor1 \<and> value_candidate store_d sensor1 = None \<and>
   attribute_templates sensor1 = Some [(''kind'', 1), (''broken'', 2), (''open'', 3)] \<and>
   distinct (map fst [(''kind'', 1::nat), (''broken'', 2), (''open'', 3)]) \<and>
   attributes sensor1 = [(''stale'', ''x'')] \<and>
   attributes (fst (snd (async_render store_d sensor1 []))) =
     [(''kind'', ''mdi:home''), (''open'', ''True'')]"
proof -
  have h: "\<not> soft_failure store_d sensor1"
    by (simp add: soft_failure_def store_d_def sensor1_fields hard_error_def
        is_undefined_error_def undefined_marker_def)
  have t: "attribute_templates sensor1 = Some [(''kind'', 1), (''broken'', 2), (''open'', 3)]"
    by (simp add: sensor1_fields)
  have d: "distinct (map fst [(''kind'', 1::nat), (''broken'', 2), (''open'', 3)])"
    by simp
  have s: "succeeded store_d [(''kind'', 1), (''broken'', 2), (''open'', 3)] =
      [(''kind'', ''mdi:home''), (''open'', ''True'')]"
    by (simp add: succeeded_def store_d_def store_a_def)
  have v: "value_candidate store_d sensor1 = None"
    by (simp add: value_candidate_def store_d_def sensor1_fields)
  have "attributes (fst (snd (async_render store_d sensor1 []))) =
      succeeded store_d [(''kind'', 1), (''broken'', 2), (''open'', 3)]"
    using attributes_replaced_by_successes [OF h t d, of "[]"] by (rule conjunct1)
  then show ?thesis
    unfolding s using h d v by (simp add: sensor1_fields)
qed

section \<open>Facts about the debounced commit\<close>

lemma set_property_frame:
  "state (set_property p v s) = state s" "delay_on (set_property p v s) = delay_on s"
  "delay_off (set_property p v s) = delay_off s" "entities (set_property p v s) = entities s"
  "template (set_property p v s) = template s" "name (set_property p v s) = name s"
  by (cases p; simp)+

lemma render_properties_frame:
  "state (fst (render_properties r ts s lg)) = state s \<and>
   delay_on (fst (render_properties r ts s lg)) = delay_on s \<and>
   delay_off (fst (render_properties r ts s lg)) = delay_off s \<and>
   entities (fst (render_properties r ts s lg)) = entities s \<and>
   template (fst (render_properties r ts s lg)) = template s"
proof (induction r ts s lg rule: render_properties.induct)
  case (3 r p t rest s lg)
  then show ?case by (cases "r t") (simp_all add: set_property_frame)
qed simp_all

lemma render_rest_frame:
  "state (fst (render_rest r s lg)) = state s \<and>
   delay_on (fst (render_rest r s lg)) = delay_on s \<and>
   delay_off (fst (render_rest r s lg)) = delay_off s \<and>
   entities (fst (render_rest r s lg)) = entities s \<and>
   template (fst (render_rest r s lg)) = template s"
proof (cases "attribute_templates s")
  case None
  then show ?thesis by (simp add: render_rest_def render_properties_frame)
next
  case (Some ats)
  obtain attrs lg' where "render_attributes r ats [] lg = (attrs, lg')"
    by (cases "render_attributes r ats [] lg")
  with Some show ?thesis by (simp add: render_rest_def render_properties_frame)
qed

lemma async_render_frame:
  "state (fst (snd (async_render r s lg))) = state s \<and>
   delay_on (fst (snd (async_render r s lg))) = delay_on s \<and>
   delay_off (fst (snd (async_render r s lg))) = delay_off s \<and>
   entities (fst (snd (async_render r s lg))) = entities s \<and>
   template (fst (snd (async_render r s lg))) = template s"
  by (simp add: async_render_def render_rest_frame split: sum.splits)



lemma falsy_delay:
  "((b \<and> falsy (delay_on s)) \<or> (\<not> b \<and> falsy (delay_off s))) = falsy (delay_for b s)"
  by (cases b) (simp_all add: delay_for_def)

text \<open>The three outcomes of \<open>async_check_state\<close>, by the candidate of the pass.\<close>

lemma check_state_silent:
  assumes "value_candidate r (fst w) = None \<or> value_candidate r (fst w) = state (fst w)"
  shows "async_check_state r w =
           (fst (snd (async_render r (fst w) (logged (snd w)))),
            (snd w)\<lparr>logged := snd (snd (async_render r (fst w) (logged (snd w))))\<rparr>)"
proof -
  obtain st s lg where p: "async_render r (fst w) (logged (snd w)) = (st, s, lg)"
    by (cases "async_render r (fst w) (logged (snd w))")
  have st: "st = value_candidate r (fst w)"
    using async_render_fst [of r "fst w" "logged (snd w)"] p by simp
  have fr: "state s = state (fst w)"
    using async_render_frame [of r "fst w" "logged (snd w)"] p by simp
  show ?thesis
  proof (cases st)
    case None
    then show ?thesis by (simp add: async_check_state_def p)
  next
    case (Some b)
    with assms st fr have eq: "state s = Some b" by auto
    show ?thesis
      by (simp add: async_check_state_def p Some eq state_property_def is_on_def)
  qed
qed

lemma check_state_immediate:
  assumes "value_candidate r (fst w) = Some b" "Some b \<noteq> state (fst w)"
    "falsy (delay_for b (fst w))"
  shows "async_check_state r w =
           set_state b
             (fst (snd (async_render r (fst w) (logged (snd w)))),
              (snd w)\<lparr>logged := snd (snd (async_render r (fst w) (logged (snd w))))\<rparr>)"
proof -
  obtain st s lg where p: "async_render r (fst w) (logged (snd w)) = (st, s, lg)"
    by (cases "async_render r (fst w) (logged (snd w))")
  have st: "st = Some b"
    using async_render_fst [of r "fst w" "logged (snd w)"] p assms(1) by simp
  have fr: "state s = state (fst w)" "delay_for b s = delay_for b (fst w)"
    using async_render_frame [of r "fst w" "logged (snd w)"] p by (simp_all add: delay_for_def)
  show ?thesis
    using assms(2,3) fr
    by (simp add: async_check_state_def p st state_property_def is_on_def falsy_delay)
qed

lemma check_state_delayed:
  assumes "value_candidate r (fst w) = Some b" "Some b \<noteq> state (fst w)"
    "delay_for b (fst w) = Some d" "0 < d"
  shows "async_check_state r w =
           (fst (snd (async_render r (fst w) (logged (snd w)))),
            async_track_same_state d b (entities (fst w))
              ((snd w)\<lparr>logged := snd (snd (async_render r (fst w) (logged (snd w))))\<rparr>))"
proof -
  obtain st s lg where p: "async_render r (fst w) (logged (snd w)) = (st, s, lg)"
    by (cases "async_render r (fst w) (logged (snd w))")
  have st: "st = Some b"
    using async_render_fst [of r "fst w" "logged (snd w)"] p assms(1) by simp
  have fr: "state s = state (fst w)" "delay_for b s = delay_for b (fst w)"
    "entities s = entities (fst w)"
    using async_render_frame [of r "fst w" "logged (snd w)"] p by (simp_all add: delay_for_def)
  have nf: "\<not> falsy (delay_for b s)"
    using assms(3,4) fr by (simp add: falsy_def)
  have d: "(if b then delay_on s else delay_off s) = Some d"
    using assms(3) fr by (simp add: delay_for_def)
  show ?thesis
    using assms(2) fr nf
    by (simp add: async_check_state_def p st state_property_def is_on_def falsy_delay d)
qed

lemma not_falsy: "\<not> falsy x \<Longrightarrow> \<exists>d. x = Some d \<and> 0 < d"
  by (cases x) (simp_all add: falsy_def)

lemma set_state_effect:
  "state (fst (set_state b w)) = Some b \<and>
   published (snd (set_state b w)) = published (snd w) @ [snapshot_of (fst (set_state b w))] \<and>
   timers (snd (set_state b w)) = timers (snd w) \<and>
   logged (snd (set_state b w)) = logged (snd w) \<and>
   now (snd (set_state b w)) = now (snd w) \<and>
   subscriptions (snd (set_state b w)) = subscriptions (snd w) \<and>
   start_listener (snd (set_state b w)) = start_listener (snd w)"
  by (simp add: set_state_def async_schedule_update_ha_state_def Let_def)

lemma silent_effect:
  assumes "value_candidate r (fst w) = None \<or> value_candidate r (fst w) = state (fst w)"
  shows "published (snd (async_check_state r w)) = published (snd w) \<and>
         state (fst (async_check_state r w)) = state (fst w) \<and>
         timers (snd (async_check_state r w)) = timers (snd w)"
  by (simp add: check_state_silent [OF assms] async_render_frame)

lemma immediate_effect:
  assumes "value_candidate r (fst w) = Some b" "Some b \<noteq> state (fst w)"
    "falsy (delay_for b (fst w))"
  shows "state (fst (async_check_state r w)) = Some b \<and>
         published (snd (async_check_state r w)) =
           published (snd w) @ [snapshot_of (fst (async_check_state r w))] \<and>
         timers (snd (async_check_state r w)) = timers (snd w)"
  by (simp add: check_state_immediate [OF assms] set_state_effect)

lemma delayed_effect:
  assumes "value_candidate r (fst w) = Some b" "Some b \<noteq> state (fst w)"
    "delay_for b (fst w) = Some d" "0 < d"
  shows "state (fst (async_check_state r w)) = state (fst w) \<and>
         published (snd (async_check_state r w)) = published (snd w) \<and>
         timers (snd (async_check_state r w)) =
           [\<lparr>deadline = now (snd w) + d, target = b, tracked = entities (fst w)\<rparr>]"
  by (simp add: check_state_delayed [OF assms] async_render_frame async_track_same_state_def)

lemma check_state_frame:
  "template (fst (async_check_state r w)) = template (fst w) \<and>
   delay_on (fst (async_check_state r w)) = delay_on (fst w) \<and>
   delay_off (fst (async_check_state r w)) = delay_off (fst w) \<and>
   entities (fst (async_check_state r w)) = entities (fst w)"
proof (cases "value_candidate r (fst w)")
  case None
  then show ?thesis by (simp add: check_state_silent async_render_frame)
next
  case (Some b)
  show ?thesis
  proof (cases "Some b = state (fst w)")
    case True
    with Some show ?thesis by (simp add: check_state_silent async_render_frame)
  next
    case False
    show ?thesis
    proof (cases "falsy (delay_for b (fst w))")
      case True
      show ?thesis
        by (simp add: check_state_immediate [OF Some False True] set_state_def Let_def
            async_render_frame)
    next
      case nf: False
      then obtain d where "delay_for b (fst w) = Some d" "0 < d"
        using not_falsy by blast
      then show ?thesis
        by (simp add: check_state_delayed [OF Some False] async_render_frame)
    qed
  qed
qed

lemma second_call_silent:
  assumes "value_candidate r2 (fst w) = value_candidate r1 (fst w)"
  shows "published (snd (async_check_state r2 (async_check_state r1 w))) =
         published (snd (async_check_state r1 w))"
proof -
  let ?w1 = "async_check_state r1 w"
  have c2: "value_candidate r2 (fst ?w1) = value_candidate r1 (fst w)"
    using assms check_state_frame [of r1 w] by (simp add: value_candidate_def)
  have dl: "delay_for b (fst ?w1) = delay_for b (fst w)" for b
    using check_state_frame [of r1 w] by (simp add: delay_for_def)
  show ?thesis
  proof (cases "value_candidate r1 (fst w)")
    case None
    with c2 show ?thesis by (simp add: silent_effect)
  next
    case (Some b)
    show ?thesis
    proof (cases "Some b = state (fst w)")
      case True
      then have "state (fst ?w1) = Some b"
        using silent_effect [of r1 w] Some by simp
      with c2 Some show ?thesis by (simp add: silent_effect)
    next
      case False
      show ?thesis
      proof (cases "falsy (delay_for b (fst w))")
        case True
        have "state (fst ?w1) = Some b"
          using immediate_effect [OF Some False True] by simp
        with c2 Some show ?thesis by (simp add: silent_effect)
      next
        case nf: False
        then obtain d where d: "delay_for b (fst w) = Some d" "0 < d"
          using not_falsy by blast
        have st: "Some b \<noteq> state (fst ?w1)"
          using delayed_effect [OF Some False d] False by simp
        have c: "value_candidate r2 (fst ?w1) = Some b"
          using c2 Some by simp
        have d1: "delay_for b (fst ?w1) = Some d"
          using dl d by simp
        show ?thesis
          using delayed_effect [OF c st d1 d(2)] by simp
      qed
    qed
  qed
qed

text \<open>
  C3: a recompute whose candidate is Unknown, or equal to the committed value, publishes
  nothing and changes neither the committed value nor the pending timer; and of two
  consecutive recomputes with the same candidate, the second publishes nothing.
\<close>

theorem unknown_or_unchanged_is_silent:
  "(value_candidate r (fst w) = None \<or> value_candidate r (fst w) = state (fst w) \<longrightarrow>
      published (snd (async_check_state r w)) = published (snd w) \<and>
      state (fst (async_check_state r w)) = state (fst w) \<and>
      timers (snd (async_check_state r w)) = timers (snd w)) \<and>
   (value_candidate r2 (fst w) = value_candidate r (fst w) \<longrightarrow>
      published (snd (async_check_state r2 (async_check_state r w))) =
      published (snd (async_check_state r w)))"
  using silent_effect [of r w] second_call_silent [of r2 w r] by blast

text \<open>
  C6: when a recompute yields a value different from the committed one, then if the
  delay of its direction (\<open>delay_on\<close> for true, \<open>delay_off\<close> for false) is unset or zero the
  value is committed at once and the new snapshot is published; otherwise nothing is
  committed or published and a timer for exactly that delay is started.
\<close>

theorem new_value_commits_or_starts_timer:
  "value_candidate r (fst w) = Some b \<Longrightarrow> Some b \<noteq> state (fst w) \<Longrightarrow>
   (falsy (delay_for b (fst w)) \<longrightarrow>
      state (fst (async_check_state r w)) = Some b \<and>
      published (snd (async_check_state r w)) =
        published (snd w) @ [snapshot_of (fst (async_check_state r w))]) \<and>
   (\<not> falsy (delay_for b (fst w)) \<longrightarrow>
      (\<exists>d. delay_for b (fst w) = Some d \<and> 0 < d \<and>
           timers (snd (async_check_state r w)) =
             [\<lparr>deadline = now (snd w) + d, target = b, tracked = entities (fst w)\<rparr>]) \<and>
      state (fst (async_check_state r w)) = state (fst w) \<and>
      published (snd (async_check_state r w)) = published (snd w))"
proof -
  assume c: "value_candidate r (fst w) = Some b" and n: "Some b \<noteq> state (fst w)"
  show ?thesis
  proof (cases "falsy (delay_for b (fst w))")
    case True
    then show ?thesis using immediate_effect [OF c n True] by simp
  next
    case False
    then obtain d where d: "delay_for b (fst w) = Some d" "0 < d"
      using not_falsy by blast
    show ?thesis using False d delayed_effect [OF c n d] by simp
  qed
qed

text \<open>
  C10: the forced update has the effect of the change listener, on every sensor and
  host state; so it is suppressed when the candidate is Unknown or unchanged, and with a
  nonzero delay it starts the timer and commits nothing.
\<close>

theorem forced_update_is_check_state:
  "async_update r w = template_bsensor_state_listener entity old_state new_state r w \<and>
   (value_candidate r (fst w) = None \<or> value_candidate r (fst w) = state (fst w) \<longrightarrow>
      published (snd (async_update r w)) = published (snd w) \<and>
      state (fst (async_update r w)) = state (fst w)) \<and>
   (value_candidate r (fst w) = Some b \<and> Some b \<noteq> state (fst w) \<and>
    delay_for b (fst w) = Some d \<and> 0 < d \<longrightarrow>
      published (snd (async_update r w)) = published (snd w) \<and>
      state (fst (async_update r w)) = state (fst w) \<and>
      timers (snd (async_update r w)) =
        [\<lparr>deadline = now (snd w) + d, target = b, tracked = entities (fst w)\<rparr>])"
  using silent_effect [of r w] delayed_effect [of r w b d]
  by (simp add: async_update_def template_bsensor_state_listener_def)

lemma sensor0_fields:
  "template sensor0 = 0" "state sensor0 = None" "delay_on sensor0 = Some 3"
  "delay_off sensor0 = None" "entities sensor0 = Entities {''sensor.door''}"
  "name sensor0 = ''door''"
  by (simp_all add: sensor0_def init_def)

lemma host0_fields:
  "published host0 = []" "timers host0 = []" "now host0 = 0" "logged host0 = []"
  "subscriptions host0 = []" "start_listener host0 = False"
  by (simp_all add: host0_def)

lemma candidates0:
  "value_candidate store_a sensor0 = None" "value_candidate store_b sensor0 = Some True"
  "value_candidate store_c sensor0 = Some False" "value_candidate store_d sensor0 = None"
  by (simp_all add: value_candidate_def sensor0_fields store_a_def store_b_def store_c_def
      store_d_def lower_examples)

text \<open>
  A pass whose value is Unknown publishes nothing; an immediate commit of false,
  recomputed with the same result, publishes nothing more.
\<close>

theorem unknown_or_unchanged_is_silent_witness:
  "value_candidate store_a (fst (sensor0, host0)) = None \<and>
   published (snd (async_check_state store_a (sensor0, host0))) = [] \<and>
   state (fst (async_check_state store_a (sensor0, host0))) = None \<and>
   timers (snd (async_check_state store_a (sensor0, host0))) = [] \<and>
   value_candidate store_c (fst (sensor0, host0)) = value_candidate store_c (fst (sensor0, host0)) \<and>
   published (snd (async_check_state store_c (async_check_state store_c (sensor0, host0)))) =
   published (snd (async_check_state store_c (sensor0, host0)))"
  using unknown_or_unchanged_is_silent [of store_a "(sensor0, host0)" store_a]
    unknown_or_unchanged_is_silent [of store_c "(sensor0, host0)" store_c]
  by (simp add: candidates0 sensor0_fields host0_fields)

text \<open>
  With \<open>delay_on\<close> of 3 and no \<open>delay_off\<close>, from Unknown: false is committed at once,
  true starts a timer with deadline 3 and commits nothing.
\<close>

theorem new_value_commits_or_starts_timer_witness:
  "value_candidate store_c (fst (sensor0, host0)) = Some False \<and>
   Some False \<noteq> state (fst (sensor0, host0)) \<and>
   falsy (delay_for False (fst (sensor0, host0))) \<and>
   state (fst (async_check_state store_c (sensor0, host0))) = Some False \<and>
   length (published (snd (async_check_state store_c (sensor0, host0)))) = 1 \<and>
   value_candidate store_b (fst (sensor0, host0)) = Some True \<and>
   Some True \<noteq> state (fst (sensor0, host0)) \<and>
   \<not> falsy (delay_for True (fst (sensor0, host0))) \<and>
   timers (snd (async_check_state store_b (sensor0, host0))) =
     [\<lparr>deadline = 3, target = True, tracked = Entities {''sensor.door''}\<rparr>] \<and>
   state (fst (async_check_state store_b (sensor0, host0))) = None \<and>
   published (snd (async_check_state store_b (sensor0, host0))) = []"
  using new_value_commits_or_starts_timer [of store_c "(sensor0, host0)" False]
    new_value_commits_or_starts_timer [of store_b "(sensor0, host0)" True]
  by (simp add: candidates0 sensor0_fields host0_fields delay_for_def falsy_def)

text \<open>
  A forced update with an Unknown candidate changes nothing; with the candidate true
  and \<open>delay_on\<close> of 3 it starts the timer and commits nothing.
\<close>

theorem forced_update_is_check_state_witness:
  "async_update store_b (sensor0, host0) =
     template_bsensor_state_listener ''sensor.door'' () () store_b (sensor0, host0) \<and>
   value_candidate store_a (fst (sensor0, host0)) = None \<and>
   published (snd (async_update store_a (sensor0, host0))) = [] \<and>
   state (fst (async_update store_a (sensor0, host0))) = None \<and>
   value_candidate store_b (fst (sensor0, host0)) = Some True \<and>
   delay_for True (fst (sensor0, host0)) = Some 3 \<and>
   published (snd (async_update store_b (sensor0, host0))) = [] \<and>
   state (fst (async_update store_b (sensor0, host0))) = None \<and>
   timers (snd (async_update store_b (sensor0, host0))) =
     [\<lparr>deadline = 3, target = True, tracked = Entities {''sensor.door''}\<rparr>]"
proof -
  note b = forced_update_is_check_state [of store_b "(sensor0, host0)" "''sensor.door''" "()" "()" True 3]
  note a = forced_update_is_check_state [of store_a "(sensor0, host0)" "''sensor.door''" "()" "()" True 3]
  show ?thesis
    using b [THEN conjunct1] b [THEN conjunct2] a [THEN conjunct2]
    by (simp add: candidates0 sensor0_fields host0_fields delay_for_def)
qed

section \<open>Facts about the pending timer\<close>

lemma check_same_func_effect:
  "fst (async_check_same_func r tgt w) = (value_candidate r (fst w) = Some tgt) \<and>
   state (fst (snd (async_check_same_func r tgt w))) = state (fst w) \<and>
   published (snd (snd (async_check_same_func r tgt w))) = published (snd w) \<and>
   timers (snd (snd (async_check_same_func r tgt w))) = timers (snd w)"
proof -
  obtain st s lg where p: "async_render r (fst w) (logged (snd w)) = (st, s, lg)"
    by (cases "async_render r (fst w) (logged (snd w))")
  have "st = value_candidate r (fst w)" "state s = state (fst w)"
    using async_render_fst [of r "fst w" "logged (snd w)"]
      async_render_frame [of r "fst w" "logged (snd w)"] p by simp_all
  then show ?thesis
    by (simp add: async_check_same_func_def p)
qed

lemma timer_fire_early:
  "timers (snd w) = tm # rest \<Longrightarrow> now (snd w) < deadline tm \<Longrightarrow> timer_fire r w = w"
  by (simp add: timer_fire_def)

lemma timer_fire_due:
  assumes "timers (snd w) = tm # rest" "deadline tm \<le> now (snd w)"
  shows "timers (snd (timer_fire r w)) = rest \<and>
         (value_candidate r (fst w) = Some (target tm) \<longrightarrow>
            state (fst (timer_fire r w)) = Some (target tm) \<and>
            published (snd (timer_fire r w)) =
              published (snd w) @ [snapshot_of (fst (timer_fire r w))]) \<and>
         (value_candidate r (fst w) \<noteq> Some (target tm) \<longrightarrow>
            state (fst (timer_fire r w)) = state (fst w) \<and>
            published (snd (timer_fire r w)) = published (snd w))"
proof -
  let ?w0 = "(fst w, (snd w)\<lparr>timers := rest\<rparr>)"
  obtain ok s h where c: "async_check_same_func r (target tm) ?w0 = (ok, s, h)"
    by (cases "async_check_same_func r (target tm) ?w0")
  have e: "ok = (value_candidate r (fst w) = Some (target tm))" "state s = state (fst w)"
    "published h = published (snd w)" "timers h = rest"
    using check_same_func_effect [of r "target tm" ?w0] c by simp_all
  have f: "timer_fire r w = (if ok then set_state (target tm) (s, h) else (s, h))"
    using assms by (simp add: timer_fire_def c)
  show ?thesis
  proof (cases ok)
    case True
    with e f show ?thesis by (simp add: set_state_effect)
  next
    case False
    with e f show ?thesis by simp
  qed
qed

text \<open>
  C5: for a pending delayed commit toward a target value, nothing happens before the
  deadline; at the deadline the timer is discarded, and the target is committed and
  published if and only if the value template, evaluated again at that moment, still
  yields the target; otherwise there is no commit and no change of the committed value,
  and no timer is left pending.
\<close>

theorem delayed_commit_iff_guard:
  "timers (snd w) = [tm] \<Longrightarrow>
   (now (snd w) < deadline tm \<longrightarrow> timer_fire r w = w) \<and>
   (deadline tm \<le> now (snd w) \<longrightarrow>
      timers (snd (timer_fire r w)) = [] \<and>
      (value_candidate r (fst w) = Some (target tm) \<longrightarrow>
         state (fst (timer_fire r w)) = Some (target tm) \<and>
         published (snd (timer_fire r w)) =
           published (snd w) @ [snapshot_of (fst (timer_fire r w))]) \<and>
      (value_candidate r (fst w) \<noteq> Some (target tm) \<longrightarrow>
         state (fst (timer_fire r w)) = state (fst w) \<and>
         published (snd (timer_fire r w)) = published (snd w)))"
  using timer_fire_early [of w tm "[]" r] timer_fire_due [of w tm "[]" r] by blast



lemma check_state_host_frame:
  "now (snd (async_check_state r w)) = now (snd w) \<and>
   subscriptions (snd (async_check_state r w)) = subscriptions (snd w) \<and>
   start_listener (snd (async_check_state r w)) = start_listener (snd w)"
proof (cases "value_candidate r (fst w)")
  case None
  then show ?thesis by (simp add: check_state_silent)
next
  case (Some b)
  show ?thesis
  proof (cases "Some b = state (fst w)")
    case True
    with Some show ?thesis by (simp add: check_state_silent)
  next
    case False
    show ?thesis
    proof (cases "falsy (delay_for b (fst w))")
      case True
      show ?thesis
        by (simp add: check_state_immediate [OF Some False True] set_state_effect)
    next
      case nf: False
      then obtain d where "delay_for b (fst w) = Some d" "0 < d"
        using not_falsy by blast
      then show ?thesis
        by (simp add: check_state_delayed [OF Some False] async_track_same_state_def)
    qed
  qed
qed

lemma candidate_after_check:
  "value_candidate r' (fst (async_check_state r w)) = value_candidate r' (fst w)"
  using check_state_frame [of r w] by (simp add: value_candidate_def)

lemma delay_after_check:
  "delay_for b (fst (async_check_state r w)) = delay_for b (fst w)"
  using check_state_frame [of r w] by (simp add: delay_for_def)

lemma delays0:
  "delay_for True sensor0 = Some 3" "delay_for False sensor0 = None"
  by (simp_all add: delay_for_def sensor0_fields)

lemma pending0_facts:
  "timers (snd pending0) = [timer0]" "state (fst pending0) = None"
  "published (snd pending0) = []" "now (snd pending0) = 0"
  "value_candidate store_b (fst pending0) = Some True"
  "value_candidate store_c (fst pending0) = Some False"
  "delay_for True (fst pending0) = Some 3" "delay_for False (fst pending0) = None"
proof -
  have c: "value_candidate store_b (fst world0) = Some True"
    and n: "Some True \<noteq> state (fst world0)"
    and d: "delay_for True (fst world0) = Some 3"
    by (simp_all add: world0_def candidates0 sensor0_fields delays0)
  have "(0::nat) < 3" by simp
  from delayed_effect [OF c n d this]
  show "timers (snd pending0) = [timer0]" "state (fst pending0) = None"
    "published (snd pending0) = []"
    by (simp_all add: pending0_def world0_def timer0_def sensor0_fields host0_fields)
  show "now (snd pending0) = 0"
    by (simp add: pending0_def check_state_host_frame world0_def host0_fields)
  have "value_candidate r (fst pending0) = value_candidate r sensor0" for r
    by (simp add: pending0_def candidate_after_check world0_def)
  then show "value_candidate store_b (fst pending0) = Some True"
    "value_candidate store_c (fst pending0) = Some False"
    by (simp_all add: candidates0)
  have "delay_for b (fst pending0) = delay_for b sensor0" for b
    by (simp add: pending0_def delay_after_check world0_def)
  then show "delay_for True (fst pending0) = Some 3" "delay_for False (fst pending0) = None"
    by (simp_all add: delays0)
qed

lemma advance_fields:
  "fst (advance d w) = fst w" "now (snd (advance d w)) = now (snd w) + d"
  "timers (snd (advance d w)) = timers (snd w)"
  "published (snd (advance d w)) = published (snd w)"
  by (simp_all add: advance_def)

text \<open>
  With \<open>delay_on\<close> of 3 and a timer started at time 0: at time 2 the firing does nothing;
  at time 3 it commits true when the value still renders true, and abandons the
  transition when the value renders false.
\<close>

theorem delayed_commit_iff_guard_witness:
  "timers (snd (advance 2 pending0)) = [timer0] \<and>
   now (snd (advance 2 pending0)) < deadline timer0 \<and>
   timer_fire store_b (advance 2 pending0) = advance 2 pending0 \<and>
   timers (snd (advance 3 pending0)) = [timer0] \<and>
   deadline timer0 \<le> now (snd (advance 3 pending0)) \<and>
   value_candidate store_b (fst (advance 3 pending0)) = Some (target timer0) \<and>
   state (fst (timer_fire store_b (advance 3 pending0))) = Some True \<and>
   length (published (snd (timer_fire store_b (advance 3 pending0)))) = 1 \<and>
   timers (snd (timer_fire store_b (advance 3 pending0))) = [] \<and>
   value_candidate store_c (fst (advance 3 pending0)) \<noteq> Some (target timer0) \<and>
   state (fst (timer_fire store_c (advance 3 pending0))) = None \<and>
   published (snd (timer_fire store_c (advance 3 pending0))) = [] \<and>
   timers (snd (timer_fire store_c (advance 3 pending0))) = []"
proof -
  have t2: "timers (snd (advance 2 pending0)) = [timer0]"
    and t3: "timers (snd (advance 3 pending0)) = [timer0]"
    by (simp_all add: advance_fields pending0_facts)
  show ?thesis
    using delayed_commit_iff_guard [OF t2, of store_b]
      delayed_commit_iff_guard [OF t3, of store_b]
      delayed_commit_iff_guard [OF t3, of store_c]
    by (simp add: advance_fields pending0_facts timer0_def)
qed

section \<open>Facts about construction\<close>

lemma extract_loop_manual: "extract_loop ex (Some m) ts acc = acc"
proof (induction ts arbitrary: acc)
  case Nil
  then show ?case by simp
next
  case (Cons a ts)
  obtain n tpl where a: "a = (n, tpl)" by (cases a)
  obtain ids bad where acc: "acc = (ids, bad)" by (cases acc)
  show ?case using Cons.IH by (cases tpl) (simp_all add: a acc)
qed

lemma configured_simps:
  "configured [] = []"
  "configured ((n, None) # ts) = configured ts"
  "configured ((n, Some t) # ts) = (n, t) # configured ts"
  by (simp_all add: configured_def map_filter_simps)

lemma unbounded_simps:
  "unbounded ex [] = []"
  "unbounded ex ((n, None) # ts) = unbounded ex ts"
  "unbounded ex ((n, Some t) # ts) =
     (if ex t = MATCH_ALL then (n, t) # unbounded ex ts else unbounded ex ts)"
  by (simp_all add: unbounded_def configured_simps)

lemma referenced_simps:
  "referenced ex [] = {}"
  "referenced ex ((n, None) # ts) = referenced ex ts"
  "referenced ex ((n, Some t) # ts) =
     (case ex t of MATCH_ALL \<Rightarrow> {} | Entities K \<Rightarrow> K) \<union> referenced ex ts"
  by (simp_all add: referenced_def configured_simps)

lemma extract_loop_auto:
  "extract_loop ex None ts (ids, bad) =
     ((if unbounded ex ts \<noteq> [] then MATCH_ALL
       else case ids of MATCH_ALL \<Rightarrow> MATCH_ALL | Entities J \<Rightarrow> Entities (J \<union> referenced ex ts)),
      bad @ map logical_name (unbounded ex ts))"
proof (induction ts arbitrary: ids bad)
  case Nil
  then show ?case
    by (simp add: unbounded_simps referenced_simps split: entity_ids.splits)
next
  case (Cons a ts)
  obtain n tpl where a: "a = (n, tpl)" by (cases a)
  show ?case
  proof (cases tpl)
    case None
    show ?thesis
      unfolding a None using Cons.IH [of ids bad]
      by (simp add: unbounded_simps referenced_simps split: entity_ids.splits)
  next
    case (Some t)
    show ?thesis
    proof (cases "ex t")
      case MATCH_ALL
      show ?thesis
        unfolding a Some using Cons.IH [of MATCH_ALL "bad @ [replace ''_template'' [] n]"] MATCH_ALL
        by (simp add: unbounded_simps logical_name_def)
    next
      case K: (Entities K)
      show ?thesis
      proof (cases ids)
        case MATCH_ALL
        show ?thesis
          unfolding a Some using Cons.IH [of MATCH_ALL bad] K MATCH_ALL
          by (simp add: unbounded_simps)
      next
        case (Entities J)
        show ?thesis
          unfolding a Some using Cons.IH [of "Entities (J \<union> K)" bad] K Entities
          by (simp add: unbounded_simps referenced_simps Un_assoc split: entity_ids.splits)
      qed
    qed
  qed
qed

lemma resolve_manual:
  "cfg_entity_id c = Some manual \<Longrightarrow> resolve ex c = (Entities (set manual), [])"
  by (simp add: resolve_def extract_loop_manual)

lemma resolve_auto:
  "cfg_entity_id c = None \<Longrightarrow>
   resolve ex c =
     ((if unbounded ex (all_templates c) \<noteq> [] then MATCH_ALL
       else Entities (referenced ex (all_templates c))),
      map logical_name (unbounded ex (all_templates c)))"
  by (simp add: resolve_def extract_loop_auto)

lemma setup_device_resolve:
  "entities (fst (setup_device ex device c lg)) = fst (resolve ex c) \<and>
   snd (setup_device ex device c lg) =
     (if snd (resolve ex c) \<noteq> [] then lg @ [setup_warning device (snd (resolve ex c))] else lg)"
  by (cases "resolve ex c") (simp add: setup_device_def init_def)

text \<open>
  What construction resolves: explicit entity ids are used as they are, whatever the
  templates reference, and nothing is logged; without them, if no configured template is
  unbounded the sensor tracks the union of the keys its templates reference and nothing
  is logged; and if some template is unbounded the sensor's dependencies are
  \<open>MATCH_ALL\<close> and one warning lists the unbounded templates, each under its
  configuration key with \<open>_template\<close> cut out.
\<close>

lemma dependencies_resolved_at_construction:
  "(cfg_entity_id c = Some manual \<longrightarrow>
      entities (fst (setup_device ex device c lg)) = Entities (set manual) \<and>
      snd (setup_device ex device c lg) = lg) \<and>
   (cfg_entity_id c = None \<and> unbounded ex (all_templates c) = [] \<longrightarrow>
      entities (fst (setup_device ex device c lg)) = Entities (referenced ex (all_templates c)) \<and>
      snd (setup_device ex device c lg) = lg) \<and>
   (cfg_entity_id c = None \<and> unbounded ex (all_templates c) \<noteq> [] \<longrightarrow>
      entities (fst (setup_device ex device c lg)) = MATCH_ALL \<and>
      snd (setup_device ex device c lg) =
        lg @ [setup_warning device (map logical_name (unbounded ex (all_templates c)))])"
  using resolve_manual [of c manual ex] resolve_auto [of c ex]
  by (auto simp: setup_device_resolve)

lemma config0_templates:
  "all_templates config0 =
     [(''value_template'', Some 0), (''icon_template'', Some 1),
      (''entity_picture_template'', None), (''availability_template'', None),
      (''kind'', Some 1)]"
  "all_templates config1 = all_templates config0"
  "cfg_entity_id config0 = None" "cfg_entity_id config1 = Some [''sensor.a'', ''sensor.b'']"
  by (simp_all add: all_templates_def config0_def config1_def CONF_VALUE_TEMPLATE_def
      CONF_ICON_TEMPLATE_def CONF_ENTITY_PICTURE_TEMPLATE_def CONF_AVAILABILITY_TEMPLATE_def)

lemma config0_unbounded:
  "unbounded extract0 (all_templates config0) = [(''value_template'', 0)]"
  "unbounded extract1 (all_templates config0) = []"
  "referenced extract1 (all_templates config0) = {''sensor.door'', ''sun.sun''}"
  by (auto simp: config0_templates unbounded_simps referenced_simps extract0_def extract1_def)

lemma logical_name_value: "logical_name (''value_template'', t) = ''value''"
  by (simp add: logical_name_def)

text \<open>
  Explicit ids are taken over; two bounded templates give the union of their keys; an
  unbounded value template gives \<open>MATCH_ALL\<close> and the warning naming \<open>value\<close>.
\<close>

lemma dependencies_resolved_at_construction_examples:
  "cfg_entity_id config1 = Some [''sensor.a'', ''sensor.b''] \<and>
   entities (fst (setup_device extract0 ''door'' config1 [])) = Entities {''sensor.a'', ''sensor.b''} \<and>
   snd (setup_device extract0 ''door'' config1 []) = [] \<and>
   cfg_entity_id config0 = None \<and>
   unbounded extract1 (all_templates config0) = [] \<and>
   entities (fst (setup_device extract1 ''door'' config0 [])) =
     Entities {''sensor.door'', ''sun.sun''} \<and>
   snd (setup_device extract1 ''door'' config0 []) = [] \<and>
   unbounded extract0 (all_templates config0) \<noteq> [] \<and>
   entities (fst (setup_device extract0 ''door'' config0 [])) = MATCH_ALL \<and>
   snd (setup_device extract0 ''door'' config0 []) = [setup_warning ''door'' [''value'']]"
  using dependencies_resolved_at_construction
      [of config1 "[''sensor.a'', ''sensor.b'']" extract0 "''door''" "[]"]
    dependencies_resolved_at_construction
      [of config0 "[]" extract1 "''door''" "[]"]
    dependencies_resolved_at_construction
      [of config0 "[]" extract0 "''door''" "[]"]
  by (simp add: config0_templates(3,4) config0_unbounded logical_name_value)

section \<open>Facts about the lifecycle\<close>

lemma notify_single:
  "notify key r [ids] w = (if subscribed key ids then async_check_state r w else w)"
  by (simp add: template_bsensor_state_listener_def)

lemma started_unbounded:
  "entities (fst w) = MATCH_ALL \<Longrightarrow>
   started r w = async_check_state r (fst w, (snd w)\<lparr>start_listener := False\<rparr>)"
  by (simp add: started_def homeassistant_start_def async_added_to_hass_def
      template_bsensor_startup_def)

lemma started_bounded:
  "entities (fst w) = Entities K \<Longrightarrow>
   started r w =
     async_check_state r
       (fst w, async_track_state_change (Entities K) ((snd w)\<lparr>start_listener := False\<rparr>))"
  by (simp add: started_def homeassistant_start_def async_added_to_hass_def
      template_bsensor_startup_def)

lemma started_once: "homeassistant_start r' (started r w) = started r w"
proof -
  have "\<not> start_listener (snd (started r w))"
  proof (cases "entities (fst w)")
    case MATCH_ALL
    then show ?thesis by (simp add: started_unbounded check_state_host_frame)
  next
    case (Entities K)
    then show ?thesis
      by (simp add: started_bounded check_state_host_frame async_track_state_change_def)
  qed
  then show ?thesis by (simp add: homeassistant_start_def)
qed

text \<open>
  C9: on the start signal of the host, a sensor with unbounded dependencies installs no
  subscription, so that no change notification triggers a recompute; a sensor with a key
  set subscribes to exactly that set, so that a change of a key in it triggers one
  recompute-then-debounce cycle and a change of any other key none; in both cases one
  cycle runs at startup, and a second start signal does nothing.
\<close>

theorem startup_subscribes_and_recomputes:
  "subscriptions (snd w) = [] \<Longrightarrow>
   (entities (fst w) = MATCH_ALL \<longrightarrow>
      started r w = async_check_state r (fst w, (snd w)\<lparr>start_listener := False\<rparr>) \<and>
      subscriptions (snd (started r w)) = [] \<and>
      state_changed key r' (started r w) = started r w) \<and>
   (entities (fst w) = Entities K \<longrightarrow>
      started r w =
        async_check_state r
          (fst w, async_track_state_change (Entities K) ((snd w)\<lparr>start_listener := False\<rparr>)) \<and>
      subscriptions (snd (started r w)) = [Entities K] \<and>
      state_changed key r' (started r w) =
        (if key \<in> K then async_check_state r' (started r w) else started r w)) \<and>
   homeassistant_start r' (started r w) = started r w"
proof -
  assume s: "subscriptions (snd w) = []"
  have a: "subscriptions (snd (started r w)) = [] \<and>
      state_changed key r' (started r w) = started r w"
    if m: "entities (fst w) = MATCH_ALL"
  proof -
    have "subscriptions (snd (started r w)) = []"
      using s by (simp add: started_unbounded [OF m] check_state_host_frame)
    then show ?thesis by (simp add: state_changed_def)
  qed
  have b: "subscriptions (snd (started r w)) = [Entities K] \<and>
      state_changed key r' (started r w) =
        (if key \<in> K then async_check_state r' (started r w) else started r w)"
    if e: "entities (fst w) = Entities K"
  proof -
    have "subscriptions (snd (started r w)) = [Entities K]"
      using s
      by (simp add: started_bounded [OF e] check_state_host_frame async_track_state_change_def)
    then show ?thesis
      by (simp add: state_changed_def subscribed_def template_bsensor_state_listener_def)
  qed
  from a b started_unbounded [of w r] started_bounded [of w K r] started_once [of r' r w]
  show ?thesis by blast
qed

lemma sensor3_fields:
  "entities sensor3 = MATCH_ALL" "template sensor3 = 0"
  by (simp_all add: sensor3_def sensor0_fields)

text \<open>
  The sensor tracking \<open>sensor.door\<close> is notified of a change of that entity and not of
  \<open>sun.sun\<close>; the sensor with unbounded dependencies is notified of nothing.
\<close>

theorem startup_subscribes_and_recomputes_witness:
  "subscriptions (snd (sensor0, host0)) = [] \<and>
   entities (fst (sensor0, host0)) = Entities {''sensor.door''} \<and>
   subscriptions (snd (started store_a (sensor0, host0))) = [Entities {''sensor.door''}] \<and>
   state_changed ''sensor.door'' store_b (started store_a (sensor0, host0)) =
     async_check_state store_b (started store_a (sensor0, host0)) \<and>
   state_changed ''sun.sun'' store_b (started store_a (sensor0, host0)) =
     started store_a (sensor0, host0) \<and>
   homeassistant_start store_b (started store_a (sensor0, host0)) =
     started store_a (sensor0, host0) \<and>
   entities (fst (sensor3, host0)) = MATCH_ALL \<and>
   started store_a (sensor3, host0) =
     async_check_state store_a (sensor3, host0\<lparr>start_listener := False\<rparr>) \<and>
   subscriptions (snd (started store_a (sensor3, host0))) = [] \<and>
   state_changed ''sensor.door'' store_b (started store_a (sensor3, host0)) =
     started store_a (sensor3, host0)"
proof -
  have s0: "subscriptions (snd (sensor0, host0)) = []"
    and s3: "subscriptions (snd (sensor3, host0)) = []"
    by (simp_all add: host0_fields)
  have e0: "entities (fst (sensor0, host0)) = Entities {''sensor.door''}"
    and e3: "entities (fst (sensor3, host0)) = MATCH_ALL"
    by (simp_all add: sensor0_fields sensor3_fields)
  note t1 = startup_subscribes_and_recomputes
      [OF s0, of store_a "''sensor.door''" store_b "{''sensor.door''}"]
  note t2 = startup_subscribes_and_recomputes
      [OF s0, of store_a "''sun.sun''" store_b "{''sensor.door''}"]
  note t3 = startup_subscribes_and_recomputes
      [OF s3, of store_a "''sensor.door''" store_b "{}"]
  have p1: "subscriptions (snd (started store_a (sensor0, host0))) = [Entities {''sensor.door''}]"
    and p2: "state_changed ''sensor.door'' store_b (started store_a (sensor0, host0)) =
      (if ''sensor.door'' \<in> {''sensor.door''}
       then async_check_state store_b (started store_a (sensor0, host0))
       else started store_a (sensor0, host0))"
    and p3: "homeassistant_start store_b (started store_a (sensor0, host0)) =
      started store_a (sensor0, host0)"
    using t1 e0 by blast+
  have p4: "state_changed ''sun.sun'' store_b (started store_a (sensor0, host0)) =
      (if ''sun.sun'' \<in> {''sensor.door''}
       then async_check_state store_b (started store_a (sensor0, host0))
       else started store_a (sensor0, host0))"
    using t2 e0 by blast
  have p5: "started store_a (sensor3, host0) =
      async_check_state store_a (fst (sensor3, host0), (snd (sensor3, host0))\<lparr>start_listener := False\<rparr>)"
    and p6: "subscriptions (snd (started store_a (sensor3, host0))) = []"
    and p7: "state_changed ''sensor.door'' store_b (started store_a (sensor3, host0)) =
      started store_a (sensor3, host0)"
    using t3 e3 by blast+
  show ?thesis
    using s0 e0 e3 p1 p3 p6 p7 p5 by (simp add: p2 p4)
qed

section \<open>Facts about superseded timers\<close>





















section \<open>The warning for an attribute whose name contains the suffix\<close>

lemma config2_fields:
  "cfg_attribute_templates config2 = Some [(''my_template_attr'', 5)]"
  "cfg_value_template config2 = 0" "cfg_entity_id config2 = None"
  "all_templates config2 =
     [(''value_template'', Some 0), (''icon_template'', None),
      (''entity_picture_template'', None), (''availability_template'', None),
      (''my_template_attr'', Some 5)]"
  by (simp_all add: all_templates_def config2_def CONF_VALUE_TEMPLATE_def
      CONF_ICON_TEMPLATE_def CONF_ENTITY_PICTURE_TEMPLATE_def CONF_AVAILABILITY_TEMPLATE_def)

lemma config2_unbounded:
  "unbounded extract2 (all_templates config2) = [(''my_template_attr'', 5)]"
  by (simp add: config2_fields unbounded_simps extract2_def)

lemma logical_name_attr: "logical_name (''my_template_attr'', t) = ''my_attr''"
  by (simp add: logical_name_def)

text \<open>
  C8 fails on the code in what the warning names: \<open>replace("_template", "")\<close> is applied
  to the names of the attributes as well, so the unbounded attribute
  \<open>my_template_attr\<close> is reported as \<open>my_attr\<close>, which is not a name of the
  configuration.  The dependency set and the single warning are as the claim says.
\<close>

theorem warning_cuts_attribute_name:
  "cfg_entity_id config2 = None \<and>
   cfg_attribute_templates config2 = Some [(''my_template_attr'', 5)] \<and>
   extract2 5 = MATCH_ALL \<and>
   extract2 (cfg_value_template config2) = Entities {''sensor.door''} \<and>
   entities (fst (setup_device extract2 ''door'' config2 [])) = MATCH_ALL \<and>
   snd (setup_device extract2 ''door'' config2 []) =
     [Log WARNING
        (''Template binary sensor %s has no entity ids configured to track nor were we able''
         @ '' to extract the entities to track from the %s template(s). This entity will''
         @ '' only be able to be updated manually.'')
        [Str ''door'', Str ''my_attr'']]"
proof -
  have r: "resolve extract2 config2 = (MATCH_ALL, [''my_attr''])"
    by (simp add: resolve_auto config2_fields(3) config2_unbounded logical_name_attr)
  show ?thesis
    by (simp add: setup_device_resolve r config2_fields(1-3) extract2_def setup_warning_def)
qed

end
